theory Spec2Isabelle
  imports Complex_Main
begin

section \<open>Python values\<close>

text \<open>
  The exceptions that the modelled code can raise. \<open>PortAudioError\<close> and
  \<open>TypeError\<close> are what a device lookup can end in besides \<open>ValueError\<close>.
\<close>

datatype exn =
  ZeroDivisionError | IndexError | ValueError | RecursionError | PortAudioError | TypeError
  | OverflowError | MemoryError

subsection \<open>Floats\<close>

text \<open>
  A Python float is an IEEE double. The model holds the finite ones, as the rational
  numbers they are; infinities and NaN are not values of the model. Each arithmetic
  operation on floats gives the exact result rounded to the nearest double, ties to the
  even significand: \<open>round64\<close>. A double has a significand of 53 bits and an exponent
  of at least \<open>-1022\<close>, so around \<open>x\<close> the doubles are the multiples of
  \<open>ulp64 x\<close>. An operation on floats whose result lies beyond the largest double
  gives an infinity in Python and raises nothing; the model rounds such a result as
  any other, so a value of the model is the value of the code as long as it stays
  within the doubles, and no exception is gained or lost beyond them.
\<close>

type_synonym pyfloat = rat

function bit_length :: "int \<Rightarrow> int" where
  \<comment> \<open>the number of binary digits of a positive integer\<close>
  "bit_length n = (if n \<le> 0 then 0 else 1 + bit_length (n div 2))"
  by pat_completeness auto
termination
  by (relation "measure nat") auto

declare bit_length.simps [simp del]

definition floor_log2 :: "rat \<Rightarrow> int" where
  \<comment> \<open>for \<open>x > 0\<close>, the \<open>e\<close> with \<open>2 ^ e \<le> x < 2 ^ (e + 1)\<close>\<close>
  "floor_log2 x =
     (if 1 \<le> x then bit_length \<lfloor>x\<rfloor> - 1
      else - bit_length (\<lceil>1 / x\<rceil> - 1))"

definition rne :: "rat \<Rightarrow> int" where
  \<comment> \<open>the nearest integer, a tie going to the even one\<close>
  "rne t =
     (let f = \<lfloor>t\<rfloor>; d = t - of_int f
      in if d < 1 / 2 then f else if 1 / 2 < d then f + 1 else if even f then f else f + 1)"

definition ulp64 :: "rat \<Rightarrow> rat" where
  "ulp64 x = 2 powi (max (floor_log2 x) (- 1022) - 52)"

definition round64 :: "rat \<Rightarrow> pyfloat" where
  "round64 x = (if x = 0 then 0 else of_int (rne (x / ulp64 \<bar>x\<bar>)) * ulp64 \<bar>x\<bar>)"

text \<open>
  An integer operand of a float operation is converted to a float first. The conversion
  rounds, and it raises \<open>OverflowError\<close> when the integer rounds to something beyond
  the largest double \<open>2 ^ 1024 - 2 ^ 971\<close>.
\<close>

definition fits_float :: "int \<Rightarrow> bool" where
  "fits_float n \<longleftrightarrow> \<bar>n\<bar> < 2 ^ 1024 - 2 ^ 970"

definition float_of_int :: "int \<Rightarrow> exn + pyfloat" where
  "float_of_int n = (if fits_float n then Inr (round64 (of_int n)) else Inl OverflowError)"

definition float_add :: "pyfloat \<Rightarrow> pyfloat \<Rightarrow> pyfloat" where
  \<comment> \<open>\<open>x + y\<close>\<close>
  "float_add x y = round64 (x + y)"

definition float_mul :: "pyfloat \<Rightarrow> pyfloat \<Rightarrow> pyfloat" where
  \<comment> \<open>\<open>x * y\<close>\<close>
  "float_mul x y = round64 (x * y)"

definition float_div :: "pyfloat \<Rightarrow> pyfloat \<Rightarrow> exn + pyfloat" where
  \<comment> \<open>\<open>x / y\<close>\<close>
  "float_div x y = (if y = 0 then Inl ZeroDivisionError else Inr (round64 (x / y)))"

definition py_int :: "pyfloat \<Rightarrow> int" where
  \<comment> \<open>\<open>int(x)\<close>: truncation towards zero.\<close>
  "py_int x = (if x < 0 then \<lceil>x\<rceil> else \<lfloor>x\<rfloor>)"

text \<open>
  \<open>x % y\<close> on floats is C's \<open>fmod\<close>, which is exact and has the sign of \<open>x\<close>,
  followed by the addition of \<open>y\<close> when the remainder is not zero and its sign is not
  the sign of \<open>y\<close>. That addition is a float addition: it rounds.
\<close>

definition fmod :: "pyfloat \<Rightarrow> pyfloat \<Rightarrow> pyfloat" where
  "fmod x y = x - of_int (py_int (x / y)) * y"

definition py_mod :: "pyfloat \<Rightarrow> pyfloat \<Rightarrow> exn + pyfloat" where
  "py_mod x y =
     (if y = 0 then Inl ZeroDivisionError
      else let m = fmod x y in
        if m = 0 then Inr 0
        else if (y < 0) \<noteq> (m < 0) then Inr (float_add m y)
        else Inr m)"

definition py_mod_int :: "int \<Rightarrow> int \<Rightarrow> exn + int" where
  \<comment> \<open>\<open>a % b\<close> on integers: floored, as \<open>mod\<close> on \<open>int\<close> is.\<close>
  "py_mod_int a b = (if b = 0 then Inl ZeroDivisionError else Inr (a mod b))"

definition int_truediv :: "int \<Rightarrow> int \<Rightarrow> exn + pyfloat" where
  \<comment> \<open>\<open>a / b\<close> on integers: the quotient rounded once, refused when beyond the doubles.\<close>
  "int_truediv a b =
     (if b = 0 then Inl ZeroDivisionError
      else if 2 ^ 1024 - 2 ^ 970 \<le> \<bar>of_int a / of_int b :: rat\<bar> then Inl OverflowError
      else Inr (round64 (of_int a / of_int b)))"

subsection \<open>numpy arrays\<close>

text \<open>
  A one-dimensional array is a list, a two-dimensional one a list of rows. Indexing
  the first axis with an integer follows numpy: an index \<open>i\<close> with \<open>-n \<le> i < 0\<close>
  counts from the end, anything outside \<open>[-n, n)\<close> raises \<open>IndexError\<close>.
\<close>

definition ndarray_getitem :: "'a list \<Rightarrow> int \<Rightarrow> exn + 'a" where
  "ndarray_getitem xs i =
     (let n = int (length xs) in
      if i < - n \<or> n \<le> i then Inl IndexError
      else Inr (xs ! nat (if i < 0 then i + n else i)))"

text \<open>
  \<open>numpy.zeros\<close> refuses a negative dimension with \<open>ValueError\<close>. Whether it
  grants a shape without one depends on numpy's size type and on the memory of the
  machine: an \<open>allocator\<close> is the answer of the environment, \<open>None\<close> when the array
  of that shape is granted and otherwise the exception raised (\<open>ValueError\<close> for an
  array that numpy finds too big, \<open>MemoryError\<close>). It is a parameter of every
  function that allocates.
\<close>

type_synonym allocator = "nat list \<Rightarrow> exn option"

definition numpy_zeros :: "allocator \<Rightarrow> int \<Rightarrow> exn + pyfloat list" where
  \<comment> \<open>\<open>numpy.zeros(n)\<close>\<close>
  "numpy_zeros alloc n =
     (if n < 0 then Inl ValueError
      else case alloc [nat n] of
             Some e \<Rightarrow> Inl e
           | None \<Rightarrow> Inr (replicate (nat n) 0))"

definition numpy_zeros2 :: "allocator \<Rightarrow> int \<Rightarrow> int \<Rightarrow> exn + pyfloat list list" where
  \<comment> \<open>\<open>numpy.zeros((r, c))\<close>: zero is a legal dimension.\<close>
  "numpy_zeros2 alloc r c =
     (if r < 0 \<or> c < 0 then Inl ValueError
      else case alloc [nat r, nat c] of
             Some e \<Rightarrow> Inl e
           | None \<Rightarrow> Inr (replicate (nat r) (replicate (nat c) 0)))"

text \<open>An environment that grants every array of at most \<open>limit\<close> samples.\<close>

definition grants_upto :: "nat \<Rightarrow> allocator" where
  "grants_upto limit shape = (if prod_list shape \<le> limit then None else Some MemoryError)"

section \<open>audio/clip.py\<close>

text \<open>
  The attributes of \<open>Clip\<close> that the modelled methods touch; \<open>filename\<close> and
  \<open>metadata\<close> live in the extension of the record. The attribute \<open>length\<close> is
  named \<open>length_c\<close>, the list function keeps its name.
\<close>

record Clip =
  rate :: int
  channels :: int
  data :: "pyfloat list list"
  length_c :: int

definition duration :: "'a Clip_scheme \<Rightarrow> exn + pyfloat" where
  \<comment> \<open>\<open>self.length / self.rate\<close>, a division of two integers\<close>
  "duration c = int_truediv (length_c c) (rate c)"

text \<open>
  \<open>new\<close> assigns \<open>channels\<close> and \<open>length\<close> before it allocates, so a refused
  allocation leaves these two attributes changed. The method mutates the clip in place:
  the model returns the outcome together with the clip afterwards.
\<close>

definition new :: "allocator \<Rightarrow> int \<Rightarrow> int \<Rightarrow> 'a Clip_scheme \<Rightarrow> (exn + unit) \<times> 'a Clip_scheme" where
  "new alloc chans len c =
     (let c1 = c\<lparr>channels := chans\<rparr>;
          c2 = c1\<lparr>length_c := len\<rparr>
      in case numpy_zeros2 alloc chans len of
           Inl e \<Rightarrow> (Inl e, c2)
         | Inr z \<Rightarrow> (Inr (), c2\<lparr>data := z, rate := 44100\<rparr>))"

definition get_channel :: "'a Clip_scheme \<Rightarrow> int \<Rightarrow> exn + pyfloat list" where
  "get_channel c index = ndarray_getitem (data c) index"

text \<open>
  What \<open>load\<close> and \<open>new\<close> establish: \<open>data\<close> has \<open>channels\<close> rows of
  \<open>length\<close> samples each.
\<close>

definition clip_shape :: "'a Clip_scheme \<Rightarrow> bool" where
  "clip_shape c \<longleftrightarrow>
     int (length (data c)) = channels c \<and> list_all (\<lambda>row. int (length row) = length_c c) (data c)"

section \<open>audio/player/readhead.py\<close>

text \<open>
  Modelled from the spec: the class \<open>Mixer\<close>, which \<open>readhead.py\<close> imports from
  \<open>audio.io.mixer\<close> and which that module does not define. The spec gives it an
  output sample rate and a buffer size, the two attributes that \<open>read\<close> uses; they
  are named \<open>rate_m\<close> and \<open>size_m\<close>.
\<close>

record Mixer =
  rate_m :: int
  size_m :: int

text \<open>
  The head refers to its clip; the field \<open>clip\<close> holds the value of that clip
  object at the time of the call. \<open>position\<close> and \<open>speed\<close> are floats, as the
  class annotates them.
\<close>

record ReadHead =
  frame :: int
  clip :: Clip
  channel :: int
  position :: pyfloat
  speed :: pyfloat
  active :: bool

definition ReadHead_init :: "Clip \<Rightarrow> int \<Rightarrow> pyfloat \<Rightarrow> pyfloat \<Rightarrow> bool \<Rightarrow> exn + ReadHead" where
  \<comment> \<open>\<open>__init__\<close>: an exception leaves no object behind.\<close>
  "ReadHead_init cl chan pos spd act =
     (case py_mod_int chan (channels cl) of
        Inl e \<Rightarrow> Inl e
      | Inr ch \<Rightarrow>
          (case float_of_int (length_c cl) of
             Inl e \<Rightarrow> Inl e
           | Inr len \<Rightarrow>
               (case py_mod pos len of
                  Inl e \<Rightarrow> Inl e
                | Inr p \<Rightarrow>
                    Inr \<lparr>frame = 0, clip = cl, channel = ch, position = p,
                         speed = spd, active = act\<rparr>)))"

definition seek :: "pyfloat \<Rightarrow> ReadHead \<Rightarrow> (exn + pyfloat) \<times> ReadHead" where
  "seek pos h =
     (case float_of_int (length_c (clip h)) of
        Inl e \<Rightarrow> (Inl e, h)
      | Inr len \<Rightarrow>
          (case py_mod pos len of
             Inl e \<Rightarrow> (Inl e, h)
           | Inr p \<Rightarrow> (Inr p, h\<lparr>position := p\<rparr>)))"

definition py_step :: "pyfloat \<Rightarrow> int \<Rightarrow> int \<Rightarrow> exn + pyfloat" where
  \<comment> \<open>\<open>self.speed * self.clip.rate / mixer.rate\<close>, evaluated from the left\<close>
  "py_step spd clip_rate mixer_rate =
     (case float_of_int clip_rate of
        Inl e \<Rightarrow> Inl e
      | Inr cr \<Rightarrow>
          (case float_of_int mixer_rate of
             Inl e \<Rightarrow> Inl e
           | Inr mr \<Rightarrow> float_div (float_mul spd cr) mr))"

text \<open>
  The body of \<open>for i in range(mixer.size)\<close>, one equation per remaining index. The
  head is updated in place, so an exception raised inside the loop leaves the head as
  the iterations before it made it.
\<close>

fun read_loop ::
  "nat list \<Rightarrow> pyfloat \<Rightarrow> pyfloat list \<Rightarrow> pyfloat list \<Rightarrow> ReadHead \<Rightarrow> (exn + pyfloat list) \<times> ReadHead"
where
  "read_loop [] step row output h = (Inr output, h)"
| "read_loop (i # rest) step row output h =
     (if active h then
        (case ndarray_getitem row (py_int (position h)) of
           Inl e \<Rightarrow> (Inl e, h)
         | Inr v \<Rightarrow>
             read_loop rest step row (output[i := v])
               (h\<lparr>position := float_add (position h) step, frame := frame h + 1\<rparr>))
      else read_loop rest step row output (h\<lparr>frame := frame h + 1\<rparr>))"

text \<open>
  \<open>read\<close> allocates the output, computes the step and fetches the channel row, in
  this order and whether the head is active or not; an exception there leaves the head
  untouched. Then it runs the loop over \<open>range(mixer.size)\<close>.
\<close>

definition read :: "allocator \<Rightarrow> Mixer \<Rightarrow> ReadHead \<Rightarrow> (exn + pyfloat list) \<times> ReadHead" where
  "read alloc mixer h =
     (case numpy_zeros alloc (size_m mixer) of
        Inl e \<Rightarrow> (Inl e, h)
      | Inr output \<Rightarrow>
          (case py_step (speed h) (rate (clip h)) (rate_m mixer) of
             Inl e \<Rightarrow> (Inl e, h)
           | Inr step \<Rightarrow>
               (case get_channel (clip h) (channel h) of
                  Inl e \<Rightarrow> (Inl e, h)
                | Inr row \<Rightarrow> read_loop [0 ..< nat (size_m mixer)] step row output h)))"

text \<open>
  The inputs of \<open>read\<close>. A head is well formed when its channel is the index of a row
  of its clip's data, as \<open>__init__\<close> leaves it, and its clip's rate is a number that a
  float can hold. A mixer is well formed in an environment when its rate is a positive
  sample rate that a float can hold and its size is the length of a buffer that the
  environment grants.
\<close>

definition channel_ok :: "ReadHead \<Rightarrow> bool" where
  "channel_ok h \<longleftrightarrow> 0 \<le> channel h \<and> channel h < int (length (data (clip h)))"

definition head_ok :: "ReadHead \<Rightarrow> bool" where
  "head_ok h \<longleftrightarrow> channel_ok h \<and> fits_float (rate (clip h))"

definition mixer_ok :: "allocator \<Rightarrow> Mixer \<Rightarrow> bool" where
  "mixer_ok alloc m \<longleftrightarrow>
     0 < rate_m m \<and> fits_float (rate_m m) \<and> 0 \<le> size_m m \<and> alloc [nat (size_m m)] = None"

section \<open>audio/io/mixer.py\<close>

text \<open>
  \<open>DeviceType\<close> comes from \<open>utils.typing\<close>: a PortAudio device id or name, or
  \<open>None\<close> for the default device. The lookup of the capabilities, that is
  \<open>sd.query_devices(identifier)\<close> and the reading of its two channel counts, is a
  parameter of the model: a function from the identifier to the capabilities or to the
  exception that the lookup raises. It gives the same answer each time it is asked about
  the same identifier.
\<close>

datatype DeviceType = DevNone | DevId int | DevName string

record DeviceInfo =
  max_input_channels :: int
  max_output_channels :: int

fun or_0 :: "DeviceType \<Rightarrow> DeviceType" where
  \<comment> \<open>\<open>identifier or 0\<close>: \<open>None\<close>, \<open>0\<close> and the empty string are falsy.\<close>
  "or_0 DevNone = DevId 0"
| "or_0 (DevId n) = (if n = 0 then DevId 0 else DevId n)"
| "or_0 (DevName s) = (if s = [] then DevId 0 else DevName s)"

text \<open>
  The attributes of \<open>Device\<close> that the setter of the property \<open>device\<close> can reach:
  \<open>u_device\<close> is \<open>_device\<close>, \<open>u_stream\<close> is \<open>_stream\<close> (an open stream's handle,
  or \<open>None\<close>).
\<close>

record Device =
  duplex :: bool
  u_device :: DeviceType
  u_stream :: "nat option"

text \<open>
  The setter of \<open>device\<close>. The assignment \<open>self.device = identifier or 0\<close> on its
  success path is an assignment to the property, so it calls the setter again. The first
  argument is the number of nested calls the interpreter still allows before it raises
  \<open>RecursionError\<close>. The \<open>return\<close> after the assignment is reached only if the
  nested call returns.
\<close>

fun device_setter ::
  "nat \<Rightarrow> (DeviceType \<Rightarrow> exn + DeviceInfo) \<Rightarrow> DeviceType \<Rightarrow> 'a Device_scheme
     \<Rightarrow> (exn + unit) \<times> 'a Device_scheme"
where
  "device_setter depth query identifier d =
     (case query identifier of
        Inl e \<Rightarrow> (Inl e, d)
      | Inr info \<Rightarrow>
          if max_output_channels info > 0 then
            (let d1 = d\<lparr>duplex := max_input_channels info > 0\<rparr> in
             case depth of
               0 \<Rightarrow> (Inl RecursionError, d1)
             | Suc k \<Rightarrow>
                 (case device_setter k query (or_0 identifier) d1 of
                    (Inl e, d2) \<Rightarrow> (Inl e, d2)
                  | (Inr u, d2) \<Rightarrow> (Inr (), d2)))
          else (Inl ValueError, d))"

declare device_setter.simps [simp del]

section \<open>Properties of the float model\<close>

text \<open>
  The bit length of a positive integer \<open>n\<close> is at least 1, and \<open>2\<close> to the power of
  one less is at most \<open>n\<close>.
\<close>

lemma bit_length_nonneg: "0 \<le> bit_length n"
  by (induction n rule: bit_length.induct) (simp add: bit_length.simps)

lemma bit_length_lower:
  "1 \<le> n \<Longrightarrow> 1 \<le> bit_length n \<and> 2 ^ nat (bit_length n - 1) \<le> n"
proof (induction n rule: bit_length.induct)
  case (1 n)
  from "1.prems" have unfold: "bit_length n = 1 + bit_length (n div 2)"
    by (simp add: bit_length.simps [of n])
  show ?case
  proof (cases "n div 2 = 0")
    case True
    then have "bit_length (n div 2) = 0" by (simp add: bit_length.simps [of 0])
    with unfold "1.prems" show ?thesis by simp
  next
    case False
    with "1.prems" have half: "1 \<le> n div 2" by simp
    from "1.prems" have "\<not> n \<le> 0" by simp
    from "1.IH" [OF this half]
    have b: "1 \<le> bit_length (n div 2)" and p: "2 ^ nat (bit_length (n div 2) - 1) \<le> n div 2"
      by simp_all
    from b have "nat (bit_length (n div 2)) = Suc (nat (bit_length (n div 2) - 1))" by simp
    then have "(2::int) ^ nat (bit_length (n div 2)) = 2 * 2 ^ nat (bit_length (n div 2) - 1)"
      by simp
    also from p have "\<dots> \<le> 2 * (n div 2)" by simp
    also have "\<dots> \<le> n" by simp
    finally show ?thesis using unfold b by simp
  qed
qed

lemma rne_ge_floor: "\<lfloor>t\<rfloor> \<le> rne t"
  by (simp add: rne_def Let_def)

lemma ulp64_pos: "0 < ulp64 x"
  by (simp add: ulp64_def)

text \<open>Rounding a number that is at least 1 does not give zero.\<close>

lemma round64_pos:
  assumes "1 \<le> x"
  shows "0 < round64 x"
proof -
  let ?n = "\<lfloor>x\<rfloor>"
  let ?e = "bit_length ?n - 1"
  from assms have n: "1 \<le> ?n" by simp
  from bit_length_lower [OF n] have e: "0 \<le> ?e" and low: "2 ^ nat ?e \<le> ?n" by simp_all
  from assms have x: "\<bar>x\<bar> = x" "x \<noteq> 0" by simp_all
  from assms e have u: "ulp64 x = 2 powi (?e - 52)"
    by (simp add: ulp64_def floor_log2_def max_def)
  have "(2::rat) powi (?e - 52) \<le> 2 powi ?e"
    by (rule power_int_increasing) simp_all
  also from e have "\<dots> = 2 ^ nat ?e" by (simp add: power_int_def)
  also from low have "\<dots> \<le> of_int ?n"
    by (metis of_int_le_iff of_int_numeral of_int_power)
  also have "\<dots> \<le> x" by simp
  finally have "ulp64 x \<le> x" using u by simp
  with ulp64_pos [of x] have "1 \<le> x / ulp64 x" by (simp add: le_divide_eq)
  then have "1 \<le> \<lfloor>x / ulp64 x\<rfloor>" by simp
  with rne_ge_floor [of "x / ulp64 x"] have "0 < rne (x / ulp64 x)" by linarith
  with ulp64_pos [of x] x show ?thesis
    by (simp add: round64_def)
qed

lemma fits_float_small: "\<bar>n\<bar> \<le> 2 ^ 53 \<Longrightarrow> fits_float n"
  by (simp add: fits_float_def)

lemma float_of_int_zero: "float_of_int 0 = Inr 0"
  by (simp add: float_of_int_def fits_float_def round64_def)

text \<open>With a positive mixer rate the step is computed whenever the two rates are floats.\<close>

lemma py_step_total:
  assumes "fits_float cr" and "fits_float mr" and "0 < mr"
  shows "\<exists>step. py_step spd cr mr = Inr step"
proof -
  from assms(3) have "0 < round64 (of_int mr)"
    by (intro round64_pos) simp
  with assms(1,2) show ?thesis
    by (simp add: py_step_def float_of_int_def float_div_def)
qed

text \<open>The bit length of an integer below \<open>2 ^ k\<close> is at most \<open>k\<close>.\<close>

lemma bit_length_upper: "n < 2 ^ k \<Longrightarrow> bit_length n \<le> int k"
proof (induction k arbitrary: n)
  case 0
  then show ?case by (simp add: bit_length.simps [of n])
next
  case (Suc k)
  show ?case
  proof (cases "n \<le> 0")
    case True
    then show ?thesis by (simp add: bit_length.simps [of n])
  next
    case False
    from Suc.prems have "n div 2 < 2 ^ k" by simp
    from Suc.IH [OF this] False show ?thesis
      by (simp add: bit_length.simps [of n])
  qed
qed

lemma rne_of_int: "rne (of_int m) = m"
  by (simp add: rne_def)

lemma rne_le_ceiling: "rne t \<le> \<lceil>t\<rceil>"
  by (simp add: rne_def Let_def ceiling_altdef)

text \<open>Below \<open>2 ^ 53\<close> the doubles are spaced by \<open>1 / 2 ^ j\<close> for some \<open>j\<close>.\<close>

lemma ulp64_small:
  assumes "0 < x" and "x < 2 ^ 53"
  shows "\<exists>j::nat. ulp64 x = 1 / 2 ^ j"
proof -
  have "floor_log2 x \<le> 52"
  proof (cases "1 \<le> x")
    case True
    from assms(2) have "\<lfloor>x\<rfloor> < 2 ^ 53" by (simp add: floor_less_iff)
    from bit_length_upper [OF this] True show ?thesis
      by (simp add: floor_log2_def)
  next
    case False
    with bit_length_nonneg [of "\<lceil>1 / x\<rceil> - 1"] show ?thesis
      by (simp add: floor_log2_def)
  qed
  then have "max (floor_log2 x) (- 1022) - 52 \<le> 0" by simp
  then obtain j :: nat where "max (floor_log2 x) (- 1022) - 52 = - int j"
    by (metis nonpos_int_cases)
  then have "ulp64 x = 2 powi (- int j)"
    by (simp only: ulp64_def)
  also have "\<dots> = 1 / 2 ^ j"
    by (simp only: power_int_minus power_int_of_nat inverse_eq_divide)
  finally show ?thesis ..
qed

text \<open>An integer below \<open>2 ^ 53\<close> in magnitude is a double.\<close>

lemma round64_of_int:
  assumes "\<bar>n\<bar> < 2 ^ 53"
  shows "round64 (of_int n) = of_int n"
proof (cases "n = 0")
  case True
  then show ?thesis by (simp add: round64_def)
next
  case False
  let ?x = "of_int n :: rat"
  from False assms have "0 < \<bar>?x\<bar>" and "\<bar>?x\<bar> < 2 ^ 53"
    by (simp_all flip: of_int_abs add: of_int_less_numeral_power_cancel_iff)
  from ulp64_small [OF this] obtain j :: nat where u: "ulp64 \<bar>?x\<bar> = 1 / 2 ^ j" ..
  have "?x / ulp64 \<bar>?x\<bar> = of_int (n * 2 ^ j)"
    by (simp add: u)
  then have "rne (?x / ulp64 \<bar>?x\<bar>) = n * 2 ^ j"
    by (simp only: rne_of_int)
  with False show ?thesis
    by (simp add: round64_def u)
qed

text \<open>
  Rounding a positive number below an integer \<open>K \<le> 2 ^ 53\<close> gives a number from 0
  to \<open>K\<close>; it can give \<open>K\<close> itself.
\<close>

lemma round64_below_int:
  assumes "0 < z" and "z < of_int K" and "K \<le> 2 ^ 53"
  shows "0 \<le> round64 z \<and> round64 z \<le> of_int K"
proof -
  from assms(3) have "(of_int K :: rat) \<le> of_int (2 ^ 53)"
    by (simp only: of_int_le_iff)
  with assms(2) have "z < 2 ^ 53" by simp
  from ulp64_small [OF assms(1) this] obtain j :: nat where u: "ulp64 z = 1 / 2 ^ j" ..
  from assms(1) have z: "\<bar>z\<bar> = z" "z \<noteq> 0" by simp_all
  have zu: "z / ulp64 z = z * 2 ^ j" by (simp add: u)
  from assms(1) have "0 \<le> z * 2 ^ j" by simp
  then have "0 \<le> \<lfloor>z * 2 ^ j\<rfloor>" by simp
  with rne_ge_floor [of "z * 2 ^ j"] have lo: "0 \<le> rne (z * 2 ^ j)" by linarith
  from assms(2) have "z * 2 ^ j \<le> of_int (K * 2 ^ j)" by simp
  then have "\<lceil>z * 2 ^ j\<rceil> \<le> K * 2 ^ j" by (simp add: ceiling_le_iff)
  with rne_le_ceiling [of "z * 2 ^ j"] have hi: "rne (z * 2 ^ j) \<le> K * 2 ^ j" by linarith
  have r: "round64 z = of_int (rne (z * 2 ^ j)) / 2 ^ j"
    using z by (simp add: round64_def zu u)
  from lo have "0 \<le> round64 z" by (simp add: r)
  moreover from hi have "of_int (rne (z * 2 ^ j)) \<le> (of_int (K * 2 ^ j) :: rat)"
    by (simp only: of_int_le_iff)
  then have "round64 z \<le> of_int K" by (simp add: r divide_le_eq)
  ultimately show ?thesis by simp
qed

section \<open>Properties of Clip\<close>

text \<open>Indexing an array: in range from the front, in range from the end, out of range.\<close>

lemma ndarray_getitem_nonneg: "0 \<le> i \<Longrightarrow> i < int (length xs) \<Longrightarrow> ndarray_getitem xs i = Inr (xs ! nat i)"
  by (simp add: ndarray_getitem_def)

lemma ndarray_getitem_wrap:
  "- int (length xs) \<le> i \<Longrightarrow> i < 0 \<Longrightarrow> ndarray_getitem xs i = Inr (xs ! nat (i + int (length xs)))"
  by (simp add: ndarray_getitem_def)

lemma ndarray_getitem_raises:
  "ndarray_getitem xs i = Inl e \<longleftrightarrow> e = IndexError \<and> (i < - int (length xs) \<or> int (length xs) \<le> i)"
  by (auto simp add: ndarray_getitem_def Let_def)

text \<open>
  Claim C3 as written says that every negative index is refused. A clip with two
  channels returns its last row for the index \<open>-1\<close>.
\<close>

theorem get_channel_counterexample:
  "1 \<le> channels \<lparr>rate = 4, channels = 2, data = [[1, 2], [3, 4]], length_c = 2\<rparr>
   \<and> clip_shape \<lparr>rate = 4, channels = 2, data = [[1, 2], [3, 4]], length_c = 2\<rparr>
   \<and> get_channel \<lparr>rate = 4, channels = 2, data = [[1, 2], [3, 4]], length_c = 2\<rparr> (- 1) = Inr [3, 4]"
  by (simp add: get_channel_def ndarray_getitem_def clip_shape_def)

text \<open>
  Claim C3, amended. For a clip with \<open>C \<ge> 1\<close> channels whose data has the clip's
  shape, \<open>get_channel i\<close> returns row \<open>i\<close> of the data when \<open>0 \<le> i < C\<close>, returns
  row \<open>C + i\<close> when \<open>-C \<le> i < 0\<close>, and raises \<open>IndexError\<close> exactly when
  \<open>i < -C\<close> or \<open>C \<le> i\<close>.
\<close>

theorem get_channel_rows:
  assumes "clip_shape c" and "1 \<le> channels c"
  shows "(0 \<le> i \<and> i < channels c \<longrightarrow> get_channel c i = Inr (data c ! nat i))
       \<and> (- channels c \<le> i \<and> i < 0 \<longrightarrow> get_channel c i = Inr (data c ! nat (i + channels c)))
       \<and> ((\<exists>e. get_channel c i = Inl e) \<longleftrightarrow> i < - channels c \<or> channels c \<le> i)
       \<and> (i < - channels c \<or> channels c \<le> i \<longrightarrow> get_channel c i = Inl IndexError)"
  using assms
  by (auto simp add: get_channel_def clip_shape_def ndarray_getitem_def Let_def)

theorem get_channel_rows_witness:
  "get_channel \<lparr>rate = 4, channels = 2, data = [[1, 2], [3, 4]], length_c = 2\<rparr> 1 = Inr [3, 4]
   \<and> get_channel \<lparr>rate = 4, channels = 2, data = [[1, 2], [3, 4]], length_c = 2\<rparr> (- 2) = Inr [1, 2]
   \<and> get_channel \<lparr>rate = 4, channels = 2, data = [[1, 2], [3, 4]], length_c = 2\<rparr> 2 = Inl IndexError
   \<and> get_channel \<lparr>rate = 4, channels = 2, data = [[1, 2], [3, 4]], length_c = 2\<rparr> (- 3) = Inl IndexError"
proof -
  let ?c = "\<lparr>rate = 4, channels = 2, data = [[1, 2], [3, 4]], length_c = 2\<rparr>"
  have shape: "clip_shape ?c" by (simp add: clip_shape_def)
  have chans: "1 \<le> channels ?c" by simp
  show ?thesis
    using get_channel_rows [OF shape chans, of 1] get_channel_rows [OF shape chans, of "- 2"]
      get_channel_rows [OF shape chans, of 2] get_channel_rows [OF shape chans, of "- 3"]
    by simp
qed

text \<open>
  Claim C7 as written says that \<open>new\<close> fails when a dimension is zero. With two
  channels and length zero it returns, and the clip holds two empty rows.
\<close>

theorem new_zero_length_counterexample:
  "fst (new (grants_upto 1024) 2 0 \<lparr>rate = 0, channels = 0, data = [], length_c = 0\<rparr>) = Inr ()
   \<and> snd (new (grants_upto 1024) 2 0 \<lparr>rate = 0, channels = 0, data = [], length_c = 0\<rparr>)
       = \<lparr>rate = 44100, channels = 2, data = [[], []], length_c = 0\<rparr>"
  by (simp add: new_def numpy_zeros2_def grants_upto_def numeral_2_eq_2)

text \<open>
  Claim C7, amended. \<open>new channels length\<close> with non-negative arguments whose array
  the environment grants leaves a clip with an all-zero buffer of \<open>channels\<close> rows of
  \<open>length\<close> samples, rate 44100 and the duration that \<open>length / 44100\<close> gives. It
  fails exactly when one of the two arguments is negative, and then with
  \<open>ValueError\<close>, or when the array is refused, and then with the exception of the
  refusal. A dimension of zero is no failure.
\<close>

theorem new_clip:
  "(0 \<le> chans \<and> 0 \<le> len \<and> alloc [nat chans, nat len] = None \<longrightarrow>
      new alloc chans len c =
        (Inr (), c\<lparr>rate := 44100, channels := chans,
                    data := replicate (nat chans) (replicate (nat len) 0), length_c := len\<rparr>)
      \<and> clip_shape (snd (new alloc chans len c))
      \<and> duration (snd (new alloc chans len c)) = int_truediv len 44100)
   \<and> (fst (new alloc chans len c) \<noteq> Inr ()
        \<longleftrightarrow> chans < 0 \<or> len < 0 \<or> alloc [nat chans, nat len] \<noteq> None)
   \<and> (chans < 0 \<or> len < 0 \<longrightarrow> fst (new alloc chans len c) = Inl ValueError)
   \<and> (0 \<le> chans \<and> 0 \<le> len \<and> alloc [nat chans, nat len] = Some e \<longrightarrow>
        fst (new alloc chans len c) = Inl e)"
  by (auto simp add: new_def numpy_zeros2_def Let_def clip_shape_def duration_def list_all_length
      split: option.splits)

theorem new_clip_witness:
  "new (grants_upto 1024) 2 100 \<lparr>rate = 0, channels = 0, data = [], length_c = 0\<rparr>
     = (Inr (), \<lparr>rate = 44100, channels = 2, data = replicate 2 (replicate 100 0), length_c = 100\<rparr>)
   \<and> duration (snd (new (grants_upto 1024) 2 100 \<lparr>rate = 0, channels = 0, data = [], length_c = 0\<rparr>))
       = Inr (5228668955133093 / 2305843009213693952)
   \<and> fst (new (grants_upto 1024) 2 (- 1) \<lparr>rate = 0, channels = 0, data = [], length_c = 0\<rparr>)
       = Inl ValueError
   \<and> fst (new (grants_upto 1024) 2 1000 \<lparr>rate = 0, channels = 0, data = [], length_c = 0\<rparr>)
       = Inl MemoryError"
proof -
  let ?c = "\<lparr>rate = 0, channels = 0, data = [], length_c = 0\<rparr>"
  let ?a = "grants_upto 1024"
  have ok: "(0::int) \<le> 2 \<and> (0::int) \<le> 100 \<and> ?a [nat 2, nat 100] = None"
    by (simp add: grants_upto_def)
  have bad: "(2::int) < 0 \<or> (- 1::int) < 0" by simp
  have big: "(0::int) \<le> 2 \<and> (0::int) \<le> 1000 \<and> ?a [nat 2, nat 1000] = Some MemoryError"
    by (simp add: grants_upto_def)
  have d: "int_truediv 100 44100 = Inr (5228668955133093 / 2305843009213693952)"
    by code_simp
  from new_clip [of 2 100 ?a ?c] ok
  have "new ?a 2 100 ?c =
          (Inr (), ?c\<lparr>rate := 44100, channels := 2,
                      data := replicate (nat 2) (replicate (nat 100) 0), length_c := 100\<rparr>)"
    and "duration (snd (new ?a 2 100 ?c)) = int_truediv 100 44100"
    by blast+
  moreover from new_clip [of 2 "- 1" ?a ?c] bad
  have "fst (new ?a 2 (- 1) ?c) = Inl ValueError"
    by blast
  moreover from new_clip [of 2 1000 ?a ?c MemoryError] big
  have "fst (new ?a 2 1000 ?c) = Inl MemoryError"
    by blast
  ultimately show ?thesis using d by simp
qed

section \<open>Properties of ReadHead\<close>

text \<open>
  What the constructor leaves behind on a clip with at least one channel whose data has
  the clip's shape: a head with a valid channel, well formed when the clip's rate is a
  number that a float holds.
\<close>

lemma ReadHead_init_ok:
  assumes "clip_shape cl" and "1 \<le> channels cl"
    and "ReadHead_init cl chan pos spd act = Inr h"
  shows "channel_ok h \<and> clip h = cl \<and> frame h = 0 \<and> speed h = spd \<and> active h = act
       \<and> (fits_float (rate cl) \<longrightarrow> head_ok h)"
proof -
  from assms(1) have rows: "int (length (data cl)) = channels cl"
    by (simp add: clip_shape_def)
  from assms(2,3) obtain p where "h = \<lparr>frame = 0, clip = cl, channel = chan mod channels cl,
      position = p, speed = spd, active = act\<rparr>"
    by (auto simp add: ReadHead_init_def py_mod_int_def split: sum.splits if_splits)
  with rows assms(2) show ?thesis
    by (simp add: channel_ok_def head_ok_def)
qed

text \<open>\<open>seek\<close> writes no field but \<open>position\<close>, and nothing at all when it raises.\<close>

lemma seek_frame:
  "(\<exists>e. seek p h = (Inl e, h)) \<or> (\<exists>q. seek p h = (Inr q, h\<lparr>position := q\<rparr>))"
  by (simp add: seek_def split: sum.splits)

text \<open>
  \<open>seek\<close> on a clip of a length \<open>L\<close> with \<open>0 < L < 2 ^ 53\<close>: the call returns the
  new position, which lies from 0 to \<open>L\<close>. For \<open>p \<ge> 0\<close> it is \<open>p mod L\<close> exactly
  and below \<open>L\<close>; only for a negative \<open>p\<close> is a sum rounded, and only there can the
  position reach \<open>L\<close>.
\<close>

lemma seek_range:
  assumes "0 < length_c (clip h)" and "length_c (clip h) < 2 ^ 53"
  shows "\<exists>q. seek p h = (Inr q, h\<lparr>position := q\<rparr>)
           \<and> 0 \<le> q \<and> q \<le> of_int (length_c (clip h))
           \<and> (0 \<le> p \<longrightarrow>
                q = p - of_int \<lfloor>p / of_int (length_c (clip h))\<rfloor> * of_int (length_c (clip h))
                \<and> q < of_int (length_c (clip h)))"
proof -
  let ?n = "length_c (clip h)"
  let ?L = "of_int ?n :: rat"
  from assms have L: "0 < ?L" and abs: "\<bar>?n\<bar> < 2 ^ 53" by simp_all
  from abs have "fits_float ?n" by (intro fits_float_small) simp
  with round64_of_int [OF abs] have conv: "float_of_int ?n = Inr ?L"
    by (simp add: float_of_int_def)
  let ?m = "fmod p ?L"
  show ?thesis
  proof (cases "0 \<le> p")
    case True
    with L have "0 \<le> p / ?L" by simp
    then have m: "?m = p - of_int \<lfloor>p / ?L\<rfloor> * ?L"
      by (simp add: fmod_def py_int_def)
    have lo: "0 \<le> ?m" using floor_divide_lower [OF L, of p] by (simp add: m)
    have hi: "?m < ?L" using floor_divide_upper [OF L, of p] by (simp add: m algebra_simps)
    from L lo have "py_mod p ?L = Inr ?m"
      by (auto simp add: py_mod_def Let_def)
    with conv have "seek p h = (Inr ?m, h\<lparr>position := ?m\<rparr>)"
      by (simp add: seek_def)
    with lo hi m True show ?thesis by auto
  next
    case False
    with L have neg: "p / ?L < 0" by (simp add: divide_less_0_iff)
    then have m: "?m = p - of_int \<lceil>p / ?L\<rceil> * ?L"
      by (simp add: fmod_def py_int_def)
    from ceiling_correct [of "p / ?L"]
    have c1: "of_int \<lceil>p / ?L\<rceil> - 1 < p / ?L" and c2: "p / ?L \<le> of_int \<lceil>p / ?L\<rceil>"
      by simp_all
    from c2 have "p \<le> of_int \<lceil>p / ?L\<rceil> * ?L"
      by (simp only: pos_divide_le_eq [OF L])
    then have hi: "?m \<le> 0" by (simp add: m)
    from c1 have "(of_int \<lceil>p / ?L\<rceil> - 1) * ?L < p"
      by (simp only: pos_less_divide_eq [OF L])
    then have lo: "0 < ?m + ?L" by (simp add: m algebra_simps)
    show ?thesis
    proof (cases "?m = 0")
      case True
      with L have "py_mod p ?L = Inr 0" by (simp add: py_mod_def Let_def)
      with conv have "seek p h = (Inr 0, h\<lparr>position := 0\<rparr>)" by (simp add: seek_def)
      with L False show ?thesis by auto
    next
      case nz: False
      with hi have "?m < 0" by simp
      with L nz have "py_mod p ?L = Inr (round64 (?m + ?L))"
        by (simp add: py_mod_def Let_def float_add_def)
      with conv have s: "seek p h = (Inr (round64 (?m + ?L)), h\<lparr>position := round64 (?m + ?L)\<rparr>)"
        by (simp add: seek_def)
      from \<open>?m < 0\<close> have below: "?m + ?L < of_int ?n" by simp
      from assms(2) have "?n \<le> 2 ^ 53" by simp
      from round64_below_int [OF lo below this] s False show ?thesis by auto
    qed
  qed
qed

text \<open>
  Claim C5, evaluated. On a head whose clip has length 4, \<open>seek\<close> of the negative
  float \<open>-2 ^ -60\<close> computes \<open>fmod\<close> as \<open>-2 ^ -60\<close> and adds 4 to it; the sum
  rounds to 4. The position is set to 4 and 4 is returned: the length of the clip, not
  a value below it. The next \<open>read\<close> of the head, if it is active, indexes the row at 4
  and raises \<open>IndexError\<close>.
\<close>

theorem seek_reaches_length:
  "seek (- (1 / 2 ^ 60))
     \<lparr>frame = 0, clip = \<lparr>rate = 4, channels = 1, data = [[0, 1, 2, 3]], length_c = 4\<rparr>,
      channel = 0, position = 1, speed = 1, active = True\<rparr>
   = (Inr 4,
      \<lparr>frame = 0, clip = \<lparr>rate = 4, channels = 1, data = [[0, 1, 2, 3]], length_c = 4\<rparr>,
       channel = 0, position = 4, speed = 1, active = True\<rparr>)
   \<and> fst (read (grants_upto 1024) \<lparr>rate_m = 4, size_m = 1\<rparr>
     \<lparr>frame = 0, clip = \<lparr>rate = 4, channels = 1, data = [[0, 1, 2, 3]], length_c = 4\<rparr>,
      channel = 0, position = 4, speed = 1, active = True\<rparr>) = Inl IndexError"
  by code_simp

text \<open>
  Claim C9. \<open>new\<close> accepts a length of zero: it returns whenever the environment
  grants the empty array, and has no guard of its own. On a clip of length zero the constructor
  of \<open>ReadHead\<close> raises \<open>ZeroDivisionError\<close>; when the clip has channels, the
  channel modulo before it succeeds and the error comes from the modulo that normalises
  the position. \<open>seek\<close> on a head whose clip has length zero raises the same error and
  leaves the head unchanged.
\<close>

theorem zero_length_clip:
  "(0 \<le> chans \<and> alloc [nat chans, 0] = None \<longrightarrow>
      fst (new alloc chans 0 c) = Inr () \<and> length_c (snd (new alloc chans 0 c)) = 0
      \<and> channels (snd (new alloc chans 0 c)) = chans)
   \<and> (length_c cl = 0 \<longrightarrow> ReadHead_init cl chan pos spd act = Inl ZeroDivisionError)
   \<and> (length_c cl = 0 \<and> channels cl \<noteq> 0 \<longrightarrow>
        py_mod_int chan (channels cl) = Inr (chan mod channels cl)
        \<and> py_mod pos (of_int (length_c cl)) = Inl ZeroDivisionError)
   \<and> (length_c (clip h) = 0 \<longrightarrow> seek p h = (Inl ZeroDivisionError, h))"
  by (simp add: new_def numpy_zeros2_def ReadHead_init_def py_mod_int_def py_mod_def seek_def
      float_of_int_zero)

theorem zero_length_clip_witness:
  "fst (new (grants_upto 1024) 2 0 \<lparr>rate = 0, channels = 0, data = [], length_c = 0\<rparr>) = Inr ()
   \<and> ReadHead_init (snd (new (grants_upto 1024) 2 0 \<lparr>rate = 0, channels = 0, data = [], length_c = 0\<rparr>)) 0 0 1 True
       = Inl ZeroDivisionError
   \<and> py_mod_int 0 (channels (snd (new (grants_upto 1024) 2 0 \<lparr>rate = 0, channels = 0, data = [], length_c = 0\<rparr>))) = Inr 0
   \<and> seek 1 \<lparr>frame = 0, clip = \<lparr>rate = 44100, channels = 2, data = [[], []], length_c = 0\<rparr>,
              channel = 0, position = 0, speed = 1, active = True\<rparr>
       = (Inl ZeroDivisionError,
          \<lparr>frame = 0, clip = \<lparr>rate = 44100, channels = 2, data = [[], []], length_c = 0\<rparr>,
              channel = 0, position = 0, speed = 1, active = True\<rparr>)"
proof -
  let ?a = "grants_upto 1024"
  let ?c = "\<lparr>rate = 0, channels = 0, data = [], length_c = 0\<rparr>"
  let ?h = "\<lparr>frame = 0, clip = \<lparr>rate = 44100, channels = 2, data = [[], []], length_c = 0\<rparr>,
              channel = 0, position = 0, speed = 1, active = True\<rparr>"
  note t = zero_length_clip [of 2 ?a ?c "snd (new ?a 2 0 ?c)" 0 0 1 True ?h 1]
  have ch: "(0::int) \<le> 2 \<and> ?a [nat 2, 0] = None" by (simp add: grants_upto_def)
  have len: "length_c (clip ?h) = 0" by simp
  have n: "fst (new ?a 2 0 ?c) = Inr ()" and l: "length_c (snd (new ?a 2 0 ?c)) = 0"
    and c2: "channels (snd (new ?a 2 0 ?c)) = 2"
    using t [THEN conjunct1, THEN mp, OF ch] by simp_all
  have i: "ReadHead_init (snd (new ?a 2 0 ?c)) 0 0 1 True = Inl ZeroDivisionError"
    by (rule t [THEN conjunct2, THEN conjunct1, THEN mp, OF l])
  from c2 l have pre: "length_c (snd (new ?a 2 0 ?c)) = 0 \<and> channels (snd (new ?a 2 0 ?c)) \<noteq> 0"
    by simp
  have m: "py_mod_int 0 (channels (snd (new ?a 2 0 ?c))) = Inr (0 mod channels (snd (new ?a 2 0 ?c)))"
    using t [THEN conjunct2, THEN conjunct2, THEN conjunct1, THEN mp, OF pre] by simp
  have s: "seek 1 ?h = (Inl ZeroDivisionError, ?h)"
    by (rule t [THEN conjunct2, THEN conjunct2, THEN conjunct2, THEN mp, OF len])
  from n i m s show ?thesis by simp
qed

text \<open>
  The loop of \<open>read\<close>: what it does to an inactive head, and what it does to
  \<open>frame\<close>.
\<close>

lemma loop_inactive:
  "\<not> active h \<Longrightarrow> read_loop ixs step row out h = (Inr out, h\<lparr>frame := frame h + int (length ixs)\<rparr>)"
  by (induction ixs arbitrary: h) simp_all

lemma frame_mono_loop:
  "frame h \<le> frame (snd (read_loop ixs step row out h))"
proof (induction ixs arbitrary: h out)
  case Nil
  show ?case by simp
next
  case (Cons i ixs)
  show ?case
  proof (cases "active h")
    case False
    have "frame h \<le> frame (h\<lparr>frame := frame h + 1\<rparr>)" by simp
    also have "\<dots> \<le> frame (snd (read_loop ixs step row out (h\<lparr>frame := frame h + 1\<rparr>)))"
      by (rule Cons.IH)
    finally show ?thesis using False by simp
  next
    case True
    show ?thesis
    proof (cases "ndarray_getitem row (py_int (position h))")
      case (Inl e)
      with True show ?thesis by simp
    next
      case (Inr v)
      let ?h = "h\<lparr>position := float_add (position h) step, frame := frame h + 1\<rparr>"
      have "frame h \<le> frame ?h" by simp
      also have "\<dots> \<le> frame (snd (read_loop ixs step row (out[i := v]) ?h))"
        by (rule Cons.IH)
      finally show ?thesis using True Inr by simp
    qed
  qed
qed

lemma loop_returns:
  "\<not> isl (fst (read_loop ixs step row out h)) \<Longrightarrow>
     frame (snd (read_loop ixs step row out h)) = frame h + int (length ixs)"
proof (induction ixs arbitrary: h out)
  case Nil
  show ?case by simp
next
  case (Cons i ixs)
  show ?case
  proof (cases "active h")
    case False
    then show ?thesis by (simp add: loop_inactive)
  next
    case True
    show ?thesis
    proof (cases "ndarray_getitem row (py_int (position h))")
      case (Inl e)
      with True Cons.prems show ?thesis by simp
    next
      case (Inr v)
      let ?h = "h\<lparr>position := float_add (position h) step, frame := frame h + 1\<rparr>"
      from True Inr have unfold:
        "read_loop (i # ixs) step row out h = read_loop ixs step row (out[i := v]) ?h"
        by simp
      with Cons.prems have "\<not> isl (fst (read_loop ixs step row (out[i := v]) ?h))" by simp
      from Cons.IH [OF this] show ?thesis
        unfolding unfold by simp
    qed
  qed
qed

text \<open>
  No call of \<open>read\<close> decreases \<open>frame\<close>, and a call that returns a buffer has
  added the mixer's size to it.
\<close>

lemma frame_mono_read: "frame h \<le> frame (snd (read alloc m h))"
  by (simp add: read_def frame_mono_loop split: sum.splits)

lemma frame_after_read:
  assumes "\<not> isl (fst (read alloc m h))"
  shows "frame (snd (read alloc m h)) = frame h + size_m m"
proof -
  from assms have size: "0 \<le> size_m m"
    by (auto simp add: read_def numpy_zeros_def split: if_splits)
  from assms obtain step row out where
    "read alloc m h = read_loop [0 ..< nat (size_m m)] step row out h"
    by (auto simp add: read_def split: sum.splits)
  with assms loop_returns [of "[0 ..< nat (size_m m)]" step row out h] size
  show ?thesis by simp
qed

text \<open>An inactive head that is well formed, read by a well formed mixer.\<close>

lemma inactive_read_total:
  assumes "\<not> active h" and "head_ok h" and "mixer_ok alloc m"
  shows "read alloc m h = (Inr (replicate (nat (size_m m)) 0), h\<lparr>frame := frame h + size_m m\<rparr>)"
proof -
  from assms(3) have zeros: "numpy_zeros alloc (size_m m) = Inr (replicate (nat (size_m m)) 0)"
    and size: "0 \<le> size_m m"
    by (simp_all add: mixer_ok_def numpy_zeros_def)
  from assms(2,3) obtain step where step: "py_step (speed h) (rate (clip h)) (rate_m m) = Inr step"
    using py_step_total [of "rate (clip h)" "rate_m m" "speed h"]
    by (auto simp add: head_ok_def mixer_ok_def)
  from assms(2) obtain row where row: "get_channel (clip h) (channel h) = Inr row"
    by (simp add: head_ok_def channel_ok_def get_channel_def ndarray_getitem_def)
  from zeros step row assms(1) size show ?thesis
    by (simp add: read_def loop_inactive)
qed

text \<open>
  Claim C2, evaluated. On the clip \<open>[0, 1, 2, 3]\<close> with rate 4, an active head at
  position 0 with speed 1 and a mixer with rate 4 and size 4, \<open>read\<close> returns
  \<open>[0, 1, 2, 3]\<close> and leaves the position at 4, not at 0.
\<close>

theorem read_scenario_A:
  "read (grants_upto 1024) \<lparr>rate_m = 4, size_m = 4\<rparr>
     \<lparr>frame = 0, clip = \<lparr>rate = 4, channels = 1, data = [[0, 1, 2, 3]], length_c = 4\<rparr>,
      channel = 0, position = 0, speed = 1, active = True\<rparr>
   = (Inr [0, 1, 2, 3],
      \<lparr>frame = 4, clip = \<lparr>rate = 4, channels = 1, data = [[0, 1, 2, 3]], length_c = 4\<rparr>,
       channel = 0, position = 4, speed = 1, active = True\<rparr>)"
  by code_simp

text \<open>
  Claim C1, evaluated. On the clip \<open>[5, 6, 7]\<close> with rate 1, an active head at position
  2 with speed 1 and a mixer with rate 1 and size 1, \<open>read\<close> returns \<open>[7]\<close> and
  leaves the position at 3, the length of the clip, where the position-advance law gives
  \<open>(2 + 1) mod 3 = 0\<close>; the next \<open>read\<close> raises \<open>IndexError\<close>.
\<close>

theorem read_position_not_wrapped:
  "read (grants_upto 1024) \<lparr>rate_m = 1, size_m = 1\<rparr>
     \<lparr>frame = 0, clip = \<lparr>rate = 1, channels = 1, data = [[5, 6, 7]], length_c = 3\<rparr>,
      channel = 0, position = 2, speed = 1, active = True\<rparr>
   = (Inr [7],
      \<lparr>frame = 1, clip = \<lparr>rate = 1, channels = 1, data = [[5, 6, 7]], length_c = 3\<rparr>,
       channel = 0, position = 3, speed = 1, active = True\<rparr>)
   \<and> py_mod (2 + 1 * 1 * 1 / 1) 3 = Inr 0
   \<and> read (grants_upto 1024) \<lparr>rate_m = 1, size_m = 1\<rparr>
     \<lparr>frame = 1, clip = \<lparr>rate = 1, channels = 1, data = [[5, 6, 7]], length_c = 3\<rparr>,
      channel = 0, position = 3, speed = 1, active = True\<rparr>
   = (Inl IndexError,
      \<lparr>frame = 1, clip = \<lparr>rate = 1, channels = 1, data = [[5, 6, 7]], length_c = 3\<rparr>,
       channel = 0, position = 3, speed = 1, active = True\<rparr>)"
  by code_simp

text \<open>
  Claim C8, evaluated. On the clip \<open>[0, 1, 2, 3]\<close> with rate 4, an active head at
  position 0 with speed 1 and frame 0, and a mixer with rate 4 and size 8, the fifth
  sample is read at position 4 and raises \<open>IndexError\<close>: the call ends with
  \<open>frame\<close> at 4, not at 8.
\<close>

theorem read_frame_past_end:
  "read (grants_upto 1024) \<lparr>rate_m = 4, size_m = 8\<rparr>
     \<lparr>frame = 0, clip = \<lparr>rate = 4, channels = 1, data = [[0, 1, 2, 3]], length_c = 4\<rparr>,
      channel = 0, position = 0, speed = 1, active = True\<rparr>
   = (Inl IndexError,
      \<lparr>frame = 4, clip = \<lparr>rate = 4, channels = 1, data = [[0, 1, 2, 3]], length_c = 4\<rparr>,
       channel = 0, position = 4, speed = 1, active = True\<rparr>)"
  by code_simp

text \<open>
  Claim C4. For an inactive head and a mixer of size \<open>n\<close>, one call to \<open>read\<close>
  returns an all-zero buffer of length \<open>n\<close> and leaves every field of the head but
  \<open>frame\<close> as it was, the position among them; \<open>frame\<close> grows by \<open>n\<close>. The head
  and the mixer are well formed: the head's channel is the index of a row of its clip,
  the mixer's rate is positive, both rates are numbers that a float holds, and the
  buffer of \<open>n\<close> samples is granted.
\<close>

theorem read_inactive:
  assumes "\<not> active h" and "head_ok h" and "mixer_ok alloc m"
  shows "read alloc m h = (Inr (replicate (nat (size_m m)) 0), h\<lparr>frame := frame h + size_m m\<rparr>)
       \<and> position (snd (read alloc m h)) = position h
       \<and> frame (snd (read alloc m h)) = frame h + size_m m"
  using inactive_read_total [OF assms] by simp

theorem read_inactive_witness:
  "read (grants_upto 1024) \<lparr>rate_m = 4, size_m = 3\<rparr>
     \<lparr>frame = 7, clip = \<lparr>rate = 4, channels = 1, data = [[0, 1, 2, 3]], length_c = 4\<rparr>,
      channel = 0, position = 1 / 2, speed = 1, active = False\<rparr>
   = (Inr [0, 0, 0],
      \<lparr>frame = 10, clip = \<lparr>rate = 4, channels = 1, data = [[0, 1, 2, 3]], length_c = 4\<rparr>,
       channel = 0, position = 1 / 2, speed = 1, active = False\<rparr>)"
proof -
  let ?m = "\<lparr>rate_m = 4, size_m = 3\<rparr>"
  let ?h = "\<lparr>frame = 7, clip = \<lparr>rate = 4, channels = 1, data = [[0, 1, 2, 3]], length_c = 4\<rparr>,
      channel = 0, position = 1 / 2, speed = 1, active = False\<rparr>"
  have a: "\<not> active ?h" by simp
  have b: "head_ok ?h" by (simp add: head_ok_def channel_ok_def fits_float_small)
  have c: "mixer_ok (grants_upto 1024) ?m"
    by (simp add: mixer_ok_def grants_upto_def fits_float_small)
  show ?thesis
    using read_inactive [OF a b c] by (simp add: numeral_3_eq_3)
qed

section \<open>Properties of Device\<close>

text \<open>
  The setter ends in an exception at every depth and for every identifier, and it never
  writes \<open>_device\<close> or \<open>_stream\<close>.
\<close>

lemma setter_always_raises:
  "isl (fst (device_setter depth query i d))
   \<and> u_device (snd (device_setter depth query i d)) = u_device d
   \<and> u_stream (snd (device_setter depth query i d)) = u_stream d"
proof (induction depth arbitrary: i d)
  case 0
  show ?case
    by (simp add: device_setter.simps [of 0] split: sum.splits)
next
  case (Suc k)
  show ?case
  proof (cases "query i")
    case (Inl e)
    then show ?thesis by (simp add: device_setter.simps [of "Suc k"])
  next
    case (Inr info)
    show ?thesis
    proof (cases "0 < max_output_channels info")
      case False
      with Inr show ?thesis by (simp add: device_setter.simps [of "Suc k"])
    next
      case True
      let ?d1 = "d\<lparr>duplex := 0 < max_input_channels info\<rparr>"
      obtain r d2 where nested: "device_setter k query (or_0 i) ?d1 = (r, d2)"
        by (cases "device_setter k query (or_0 i) ?d1")
      from Suc.IH [of "or_0 i" ?d1] nested
      have "isl r" and "u_device d2 = u_device d" and "u_stream d2 = u_stream d"
        by simp_all
      with Inr True nested show ?thesis
        by (cases r) (simp_all add: device_setter.simps [of "Suc k"])
    qed
  qed
qed

lemma setter_recursion:
  assumes "query i = Inr info" and "0 < max_output_channels info" and "or_0 i = i"
  shows "device_setter depth query i d = (Inl RecursionError, d\<lparr>duplex := 0 < max_input_channels info\<rparr>)"
proof (induction depth arbitrary: d)
  case 0
  from assms show ?case
    by (simp add: device_setter.simps [of 0])
next
  case (Suc k)
  from assms Suc.IH [of "d\<lparr>duplex := 0 < max_input_channels info\<rparr>"] show ?case
    by (simp add: device_setter.simps [of "Suc k"])
qed

text \<open>
  Claim C6. Assigning an identifier whose capabilities report zero output channels
  raises the configuration error \<open>ValueError\<close> and leaves the device object as it
  was: \<open>_device\<close>, \<open>duplex\<close> and \<open>_stream\<close> are unchanged, so the check is made
  at assignment and no stream is opened by it.
\<close>

theorem device_guard:
  assumes "query i = Inr info" and "max_output_channels info = 0"
  shows "device_setter depth query i d = (Inl ValueError, d)"
  using assms by (simp add: device_setter.simps [of depth])

theorem device_guard_witness:
  "device_setter 1000 (\<lambda>i. Inr \<lparr>max_input_channels = 2, max_output_channels = 0\<rparr>) (DevId 3)
      \<lparr>duplex = False, u_device = DevName ''pulse'', u_stream = None\<rparr>
     = (Inl ValueError, \<lparr>duplex = False, u_device = DevName ''pulse'', u_stream = None\<rparr>)"
proof -
  let ?q = "\<lambda>i::DeviceType. (Inr \<lparr>max_input_channels = 2, max_output_channels = 0\<rparr> :: exn + DeviceInfo)"
  let ?info = "\<lparr>max_input_channels = 2, max_output_channels = 0\<rparr>"
  have q: "?q (DevId 3) = Inr ?info" by simp
  have out: "max_output_channels ?info = 0" by simp
  show ?thesis
    by (rule device_guard [where query = ?q and info = ?info, OF q out])
qed

text \<open>
  Claim C10. Assigning an identifier whose capabilities report at least one output
  channel never returns normally and never stores the identifier in \<open>_device\<close>,
  whatever nesting depth the interpreter allows. When \<open>identifier or 0\<close> is the
  identifier itself, every nested call repeats the first one and the assignment ends in
  \<open>RecursionError\<close> at every depth limit.
\<close>

theorem device_setter_never_succeeds:
  assumes "query i = Inr info" and "0 < max_output_channels info"
  shows "isl (fst (device_setter depth query i d))
       \<and> u_device (snd (device_setter depth query i d)) = u_device d
       \<and> (or_0 i = i \<longrightarrow> fst (device_setter depth query i d) = Inl RecursionError)"
proof -
  have "or_0 i = i \<longrightarrow> fst (device_setter depth query i d) = Inl RecursionError"
  proof
    assume "or_0 i = i"
    with assms show "fst (device_setter depth query i d) = Inl RecursionError"
      by (simp add: setter_recursion [where info = info])
  qed
  with setter_always_raises [of depth query i d] show ?thesis by simp
qed

theorem device_setter_never_succeeds_witness:
  "fst (device_setter 1000 (\<lambda>i. Inr \<lparr>max_input_channels = 0, max_output_channels = 2\<rparr>) (DevName ''hdmi'')
      \<lparr>duplex = True, u_device = DevName ''pulse'', u_stream = None\<rparr>) = Inl RecursionError
   \<and> u_device (snd (device_setter 1000 (\<lambda>i. Inr \<lparr>max_input_channels = 0, max_output_channels = 2\<rparr>) (DevName ''hdmi'')
      \<lparr>duplex = True, u_device = DevName ''pulse'', u_stream = None\<rparr>)) = DevName ''pulse''"
proof -
  let ?q = "\<lambda>i::DeviceType. (Inr \<lparr>max_input_channels = 0, max_output_channels = 2\<rparr> :: exn + DeviceInfo)"
  let ?info = "\<lparr>max_input_channels = 0, max_output_channels = 2\<rparr>"
  have q: "?q (DevName ''hdmi'') = Inr ?info" by simp
  have out: "0 < max_output_channels ?info" by simp
  show ?thesis
    using device_setter_never_succeeds [where query = ?q and info = ?info, OF q out,
        where depth = 1000 and d = "\<lparr>duplex = True, u_device = DevName ''pulse'', u_stream = None\<rparr>"]
    by simp
qed

end
